theory Spec2Isabelle
  imports Main
begin

section \<open>Run-time failures and Go errors\<close>

text \<open>
  A Go \<open>error\<close> value is modelled by its message.  A run-time panic (a nil pointer
  dereference, a method call on a nil interface, an explicit \<open>panic(...)\<close>) is a
  value of type \<open>panic\<close>; a function that can panic returns \<open>panic + 'a\<close>.
\<close>

datatype go_error = GoError string

datatype panic = NilPointerDereference | Panic string

definition bindP :: "panic + 'a \<Rightarrow> ('a \<Rightarrow> panic + 'b) \<Rightarrow> panic + 'b" where
  "bindP x f = (case x of Inl p \<Rightarrow> Inl p | Inr v \<Rightarrow> f v)"

section \<open>GroupKindMatcher (package eval, query specification)\<close>

datatype GroupKind = GroupKind (Group: string) (Kind: string)

record GroupKindMatcher =
  IncludeAll :: bool
  IncludedKinds :: "GroupKind list"
  ExcludedKinds :: "GroupKind list"

text \<open>The zero value \<open>GroupKindMatcher{}\<close>: nil slices have length 0.\<close>

definition GroupKindMatcher_zero :: GroupKindMatcher where
  "GroupKindMatcher_zero = \<lparr>IncludeAll = False, IncludedKinds = [], ExcludedKinds = []\<rparr>"

definition NewGroupKindMatcherSingle :: "GroupKind \<Rightarrow> GroupKindMatcher" where
  "NewGroupKindMatcherSingle kind =
     \<lparr>IncludeAll = False, IncludedKinds = [kind], ExcludedKinds = []\<rparr>"

text \<open>
  \<open>intersect2\<close>: the elements of \<open>b\<close>, in order, that occur in \<open>a\<close> (the Go code
  puts \<open>a\<close> into a map used as a set and filters \<open>b\<close> by membership).
\<close>

definition intersect2 :: "'a list \<Rightarrow> 'a list \<Rightarrow> 'a list" where
  "intersect2 a b = filter (\<lambda>kind. kind \<in> set a) b"

text \<open>\<open>intersect\<close>: a switch on the number of sets; more than two is a panic.\<close>

fun intersect :: "'a list list \<Rightarrow> panic + 'a list" where
  "intersect [] = Inr []"
| "intersect [s0] = Inr s0"
| "intersect [s0, s1] = Inr (intersect2 s0 s1)"
| "intersect _ = Inl (Panic ''intersect only supports up to two inputs'')"

definition Merge :: "GroupKindMatcher \<Rightarrow> GroupKindMatcher \<Rightarrow> panic + GroupKindMatcher" where
  "Merge m other =
     (let (includeAll, includedKinds) =
            (if \<not> IncludeAll m \<and> \<not> IncludeAll other
             then (False, [] @ IncludedKinds m @ IncludedKinds other)
             else (True, []));
          excludeInputs = [];
          excludeInputs = (if IncludeAll m then excludeInputs @ [ExcludedKinds m]
                           else excludeInputs);
          excludeInputs = (if IncludeAll other then excludeInputs @ [ExcludedKinds other]
                           else excludeInputs)
      in bindP (intersect excludeInputs) (\<lambda>excludedKinds.
           Inr \<lparr>IncludeAll = includeAll, IncludedKinds = includedKinds,
                ExcludedKinds = excludedKinds\<rparr>))"

definition Equal :: "GroupKindMatcher \<Rightarrow> GroupKindMatcher \<Rightarrow> bool" where
  "Equal m other =
     (if length (IncludedKinds m) \<noteq> length (IncludedKinds other) \<or>
         length (ExcludedKinds m) \<noteq> length (ExcludedKinds other) then False
      else if IncludeAll m \<noteq> IncludeAll other then False
      else if length (intersect2 (IncludedKinds m) (IncludedKinds other))
                \<noteq> length (IncludedKinds m) then False
      else if length (intersect2 (ExcludedKinds m) (ExcludedKinds other))
                \<noteq> length (ExcludedKinds m) then False
      else True)"

definition Match :: "GroupKindMatcher \<Rightarrow> GroupKind \<Rightarrow> bool" where
  "Match m gk =
     (if length (IncludedKinds m) > 0 then gk \<in> set (IncludedKinds m)
      else if \<not> IncludeAll m then False
      else if length (ExcludedKinds m) > 0 then gk \<notin> set (ExcludedKinds m)
      else True)"

section \<open>Properties of the matcher\<close>

lemma Merge_enumerated:
  "\<not> IncludeAll m \<Longrightarrow> \<not> IncludeAll other \<Longrightarrow>
   Merge m other = Inr \<lparr>IncludeAll = False,
     IncludedKinds = IncludedKinds m @ IncludedKinds other, ExcludedKinds = []\<rparr>"
  by (simp add: Merge_def bindP_def)

lemma Merge_both_all:
  "IncludeAll m \<Longrightarrow> IncludeAll other \<Longrightarrow>
   Merge m other = Inr \<lparr>IncludeAll = True, IncludedKinds = [],
     ExcludedKinds = intersect2 (ExcludedKinds m) (ExcludedKinds other)\<rparr>"
  by (simp add: Merge_def bindP_def)

lemma Merge_left_all:
  "IncludeAll m \<Longrightarrow> \<not> IncludeAll other \<Longrightarrow>
   Merge m other = Inr \<lparr>IncludeAll = True, IncludedKinds = [],
     ExcludedKinds = ExcludedKinds m\<rparr>"
  by (simp add: Merge_def bindP_def)

lemma Merge_right_all:
  "\<not> IncludeAll m \<Longrightarrow> IncludeAll other \<Longrightarrow>
   Merge m other = Inr \<lparr>IncludeAll = True, IncludedKinds = [],
     ExcludedKinds = ExcludedKinds other\<rparr>"
  by (simp add: Merge_def bindP_def)

text \<open>The panic of \<open>intersect\<close> is out of reach of \<open>Merge\<close>: it always returns a matcher.\<close>

lemma Merge_returns: "\<exists>r. Merge m other = Inr r"
  by (cases "IncludeAll m"; cases "IncludeAll other")
     (simp_all add: Merge_enumerated Merge_both_all Merge_left_all Merge_right_all)

text \<open>
  C3 (monotone widening).  \<open>Merge\<close> is documented as returning a matcher "that matches
  the union of the kinds matched by the receiver and the other matcher".  It does not:
  when the receiver enumerates a kind and the other matcher includes all kinds but excludes
  that very kind, the exclusion list of the other side is taken over unchanged and the
  kind matched by the receiver is no longer matched by the merged matcher.
\<close>

theorem Merge_loses_included_kind:
  "Match (NewGroupKindMatcherSingle (GroupKind '''' ''Service'')) (GroupKind '''' ''Service'')
   \<and> Merge (NewGroupKindMatcherSingle (GroupKind '''' ''Service''))
         \<lparr>IncludeAll = True, IncludedKinds = [], ExcludedKinds = [GroupKind '''' ''Service'']\<rparr>
       = Inr \<lparr>IncludeAll = True, IncludedKinds = [],
              ExcludedKinds = [GroupKind '''' ''Service'']\<rparr>
   \<and> \<not> Match \<lparr>IncludeAll = True, IncludedKinds = [],
                ExcludedKinds = [GroupKind '''' ''Service'']\<rparr> (GroupKind '''' ''Service'')"
  by (simp add: Match_def Merge_def bindP_def NewGroupKindMatcherSingle_def)

text \<open>
  C4 (idempotence of \<open>Merge\<close> as decided by \<open>Equal\<close>).  For a matcher that enumerates
  kinds, \<open>Merge\<close> appends the two lists without removing duplicates, and \<open>Equal\<close>
  first compares lengths: merging the single-kind matcher with itself gives a list of two
  entries, which \<open>Equal\<close> reports as different from the original.
\<close>

theorem Merge_self_not_Equal:
  "Merge (NewGroupKindMatcherSingle (GroupKind '''' ''Pod''))
         (NewGroupKindMatcherSingle (GroupKind '''' ''Pod''))
     = Inr \<lparr>IncludeAll = False,
            IncludedKinds = [GroupKind '''' ''Pod'', GroupKind '''' ''Pod''],
            ExcludedKinds = []\<rparr>
   \<and> \<not> Equal \<lparr>IncludeAll = False,
                IncludedKinds = [GroupKind '''' ''Pod'', GroupKind '''' ''Pod''],
                ExcludedKinds = []\<rparr>
              (NewGroupKindMatcherSingle (GroupKind '''' ''Pod''))"
  by (simp add: Merge_def bindP_def Equal_def NewGroupKindMatcherSingle_def)

text \<open>The comparison alone: the doubled list is not \<open>Equal\<close> to the single-kind matcher.\<close>

theorem Merge_self_not_Equal_witness:
  "\<not> Equal \<lparr>IncludeAll = False,
              IncludedKinds = [GroupKind '''' ''Pod'', GroupKind '''' ''Pod''],
              ExcludedKinds = []\<rparr>
            (NewGroupKindMatcherSingle (GroupKind '''' ''Pod''))"
  using Merge_self_not_Equal by simp

text \<open>
  Where idempotence does hold: a matcher that includes all kinds (and enumerates none), and
  a matcher that enumerates nothing.
\<close>

lemma Merge_self_Equal_include_all:
  "IncludeAll m \<Longrightarrow> IncludedKinds m = [] \<Longrightarrow> Merge m m = Inr r \<Longrightarrow> Equal r m"
  by (auto simp: Merge_both_all Equal_def intersect2_def)

lemma Merge_self_Equal_empty:
  "\<not> IncludeAll m \<Longrightarrow> IncludedKinds m = [] \<Longrightarrow> ExcludedKinds m = [] \<Longrightarrow>
   Merge m m = Inr r \<Longrightarrow> Equal r m"
  by (auto simp: Merge_enumerated Equal_def intersect2_def)

text \<open>
  C5, as stated: whenever exactly one side has \<open>IncludeAll\<close> set, the merged matcher has
  \<open>IncludeAll\<close> set and an empty exclusion list.  This fails: \<open>intersect\<close> of a single
  list returns that list, so the exclusions of the include-all side survive.
\<close>

theorem Merge_one_sided_empty_exclusions_counterexample:
  "\<not> (\<forall>a b. IncludeAll a \<noteq> IncludeAll b \<longrightarrow>
         (\<exists>r. Merge a b = Inr r \<and> IncludeAll r \<and> ExcludedKinds r = []))"
proof
  let ?a = "\<lparr>IncludeAll = True, IncludedKinds = [],
             ExcludedKinds = [GroupKind '''' ''ConfigMap'']\<rparr>"
  let ?b = "NewGroupKindMatcherSingle (GroupKind '''' ''Pod'')"
  assume "\<forall>a b. IncludeAll a \<noteq> IncludeAll b \<longrightarrow>
         (\<exists>r. Merge a b = Inr r \<and> IncludeAll r \<and> ExcludedKinds r = [])"
  then have "IncludeAll ?a \<noteq> IncludeAll ?b \<longrightarrow>
         (\<exists>r. Merge ?a ?b = Inr r \<and> IncludeAll r \<and> ExcludedKinds r = [])"
    by blast
  then show False
    by (simp add: Merge_def bindP_def NewGroupKindMatcherSingle_def)
qed

text \<open>
  Where \<open>Merge\<close> is the union its documentation promises: one side includes all kinds
  (and enumerates none), and the other side enumerates none of the kinds that the first
  excludes.  Then a kind is matched by the merged matcher exactly when one of the two sides
  matches it.
\<close>

lemma Match_include_all:
  "IncludeAll m \<Longrightarrow> IncludedKinds m = [] \<Longrightarrow> Match m gk = (gk \<notin> set (ExcludedKinds m))"
  by (cases "ExcludedKinds m") (simp_all add: Match_def)

lemma Match_enumerated:
  "\<not> IncludeAll m \<Longrightarrow> Match m gk = (gk \<in> set (IncludedKinds m))"
  by (cases "IncludedKinds m") (simp_all add: Match_def)

lemma Merge_left_all_union:
  assumes "IncludeAll a" "\<not> IncludeAll b" "IncludedKinds a = []"
    and "set (IncludedKinds b) \<inter> set (ExcludedKinds a) = {}"
    and "Merge a b = Inr r"
  shows "Match r gk = (Match a gk \<or> Match b gk)"
proof -
  have r: "r = \<lparr>IncludeAll = True, IncludedKinds = [], ExcludedKinds = ExcludedKinds a\<rparr>"
    using assms(1,2,5) by (simp add: Merge_left_all)
  have "Match r gk = (gk \<notin> set (ExcludedKinds a))"
    by (simp add: r Match_include_all)
  moreover have "Match a gk = (gk \<notin> set (ExcludedKinds a))"
    using assms(1,3) by (rule Match_include_all)
  moreover have "Match b gk = (gk \<in> set (IncludedKinds b))"
    using assms(2) by (rule Match_enumerated)
  ultimately show ?thesis
    using assms(4) by auto
qed

lemma Merge_right_all_union:
  assumes "\<not> IncludeAll a" "IncludeAll b" "IncludedKinds b = []"
    and "set (IncludedKinds a) \<inter> set (ExcludedKinds b) = {}"
    and "Merge a b = Inr r"
  shows "Match r gk = (Match a gk \<or> Match b gk)"
proof -
  have r: "r = \<lparr>IncludeAll = True, IncludedKinds = [], ExcludedKinds = ExcludedKinds b\<rparr>"
    using assms(1,2,5) by (simp add: Merge_right_all)
  have "Match r gk = (gk \<notin> set (ExcludedKinds b))"
    by (simp add: r Match_include_all)
  moreover have "Match b gk = (gk \<notin> set (ExcludedKinds b))"
    using assms(2,3) by (rule Match_include_all)
  moreover have "Match a gk = (gk \<in> set (IncludedKinds a))"
    using assms(1) by (rule Match_enumerated)
  ultimately show ?thesis
    using assms(4) by auto
qed

text \<open>
  C5, amended: whenever exactly one side has \<open>IncludeAll\<close> set and the other side
  enumerates none of the kinds which that side excludes, \<open>Merge\<close> returns a matcher with
  \<open>IncludeAll\<close> set, no enumerated kinds, and exactly the exclusion list of the side that
  has \<open>IncludeAll\<close> set.  (Pairs in which the other side enumerates an excluded kind are
  left out: there the merged matcher loses that kind, see C3.)
\<close>

theorem Merge_one_sided:
  assumes "IncludeAll a \<noteq> IncludeAll b"
    and "set (IncludedKinds (if IncludeAll a then b else a))
           \<inter> set (ExcludedKinds (if IncludeAll a then a else b)) = {}"
  shows "Merge a b = Inr \<lparr>IncludeAll = True, IncludedKinds = [],
                          ExcludedKinds = ExcludedKinds (if IncludeAll a then a else b)\<rparr>"
  using assms(1) by (cases "IncludeAll a") (simp_all add: Merge_left_all Merge_right_all)

text \<open>
  An include-all matcher that excludes config maps, merged with the single-kind matcher
  for pods: the exclusion of config maps is kept, and pods are matched.
\<close>

theorem Merge_one_sided_witness:
  "IncludeAll \<lparr>IncludeAll = True, IncludedKinds = [],
               ExcludedKinds = [GroupKind [] ''ConfigMap'']\<rparr>
     \<noteq> IncludeAll (NewGroupKindMatcherSingle (GroupKind [] ''Pod''))
   \<and> set (IncludedKinds (NewGroupKindMatcherSingle (GroupKind [] ''Pod'')))
       \<inter> set (ExcludedKinds \<lparr>IncludeAll = True, IncludedKinds = [],
                                  ExcludedKinds = [GroupKind [] ''ConfigMap'']\<rparr>) = {}
   \<and> Merge \<lparr>IncludeAll = True, IncludedKinds = [],
             ExcludedKinds = [GroupKind [] ''ConfigMap'']\<rparr>
           (NewGroupKindMatcherSingle (GroupKind [] ''Pod''))
       = Inr \<lparr>IncludeAll = True, IncludedKinds = [],
              ExcludedKinds = [GroupKind [] ''ConfigMap'']\<rparr>
   \<and> Match \<lparr>IncludeAll = True, IncludedKinds = [],
             ExcludedKinds = [GroupKind [] ''ConfigMap'']\<rparr> (GroupKind [] ''Pod'')"
  using Merge_one_sided [of "\<lparr>IncludeAll = True, IncludedKinds = [],
               ExcludedKinds = [GroupKind [] ''ConfigMap'']\<rparr>"
               "NewGroupKindMatcherSingle (GroupKind [] ''Pod'')"]
  by (simp add: NewGroupKindMatcherSingle_def Match_def)

section \<open>The status model (package status)\<close>

text \<open>
  Modelled from the spec: package \<open>status\<close> (the \<open>Result\<close> enum, its \<open>String\<close>
  method, the \<open>Status()\<close> accessors) is not among the sources.  The spec gives the
  enum as totally ordered, \<open>Unknown < Ok < Warning < Error\<close>; the Go code compares the
  values as integers (\<open>st.Result > res\<close>), which \<open>Result_rank\<close> spells out.
\<close>

datatype Result = Unknown | Ok | Warning | Error

fun Result_rank :: "Result \<Rightarrow> nat" where
  "Result_rank Unknown = 0"
| "Result_rank Ok = 1"
| "Result_rank Warning = 2"
| "Result_rank Error = 3"

lemma Result_rank_inj: "Result_rank a = Result_rank b \<Longrightarrow> a = b"
  by (cases a; cases b) simp_all

instantiation Result :: linorder
begin

definition less_eq_Result :: "Result \<Rightarrow> Result \<Rightarrow> bool" where
  "less_eq_Result a b = (Result_rank a \<le> Result_rank b)"

definition less_Result :: "Result \<Rightarrow> Result \<Rightarrow> bool" where
  "less_Result a b = (Result_rank a < Result_rank b)"

instance
  by standard (auto simp: less_eq_Result_def less_Result_def dest: Result_rank_inj)

end

text \<open>
  Modelled from the spec: \<open>Result.String()\<close>, the name of the verdict (the tests under
  the sources print conditions as \<open>(Ok)\<close>, \<open>(Error)\<close>, \<open>(Unknown)\<close>).
\<close>

fun Result_String :: "Result \<Rightarrow> string" where
  "Result_String Unknown = ''Unknown''"
| "Result_String Ok = ''Ok''"
| "Result_String Warning = ''Warning''"
| "Result_String Error = ''Error''"

text \<open>
  \<open>Status\<close>: the struct of the project documentation.  Its human-readable field, called
  \<open>Status\<close> in Go, is \<open>StatusText\<close> here.
\<close>

record Status =
  Result :: Result
  Progressing :: bool
  StatusText :: string
  Err :: "go_error option"

text \<open>
  A Kubernetes condition (\<open>metav1.Condition\<close>).  Its \<open>Status\<close> is a string type with
  the three constants below; the transition time is a number (0 is the zero time).
\<close>

record Condition =
  Type :: string
  Status :: string
  ObservedGeneration :: int
  LastTransitionTime :: int
  Reason :: string
  Message :: string

definition ConditionTrue :: string where "ConditionTrue = ''True''"
definition ConditionFalse :: string where "ConditionFalse = ''False''"
definition ConditionUnknown :: string where "ConditionUnknown = ''Unknown''"

text \<open>
  \<open>ConditionStatus\<close> holds two pointers: the embedded \<open>*metav1.Condition\<close> and
  \<open>CondStatus *Status\<close>.  A nil pointer is \<open>None\<close>.
\<close>

record ConditionStatus =
  Condition :: "Condition option"
  CondStatus :: "Status option"

text \<open>
  An object: the part of its type and object metadata that the modelled code reads, and
  the untyped data (here: string-valued top-level fields).  Objects are immutable after
  creation, so a pointer to an object is modelled by the object.
\<close>

record Object =
  TypeMeta_Kind :: string
  TypeMeta_APIVersion :: string
  Name :: string
  Namespace :: string
  UID :: string
  Generation :: int
  OwnerReferences :: "string list"
  Unstructured :: "string \<rightharpoonup> string"

datatype ObjectStatus =
  ObjectStatus (Object: Object) (ObjStatus: Status)
    (SubStatuses: "ObjectStatus list") (os_Conditions: "ConditionStatus list")

text \<open>
  Modelled from the spec: the accessors \<open>ConditionStatus.Status()\<close> and
  \<open>ObjectStatus.Status()\<close> of package \<open>status\<close>, which is not among the sources.
  A \<open>ConditionStatus\<close> pairs the condition with the status an analyzer derived for it,
  and the project documentation declares \<open>CondStatus\<close> as a pointer to that status: the
  first accessor yields the status pointed to, and on a nil pointer the dereference
  panics.  The second yields \<open>ObjStatus\<close>.
\<close>

definition ConditionStatus_Status :: "ConditionStatus \<Rightarrow> panic + Status" where
  "ConditionStatus_Status cs =
     (case CondStatus cs of None \<Rightarrow> Inl NilPointerDereference | Some st \<Rightarrow> Inr st)"

definition ObjectStatus_Status :: "ObjectStatus \<Rightarrow> Status" where
  "ObjectStatus_Status os = ObjStatus os"

text \<open>
  Modelled from the spec: \<open>UnknownStatusWithError\<close> of package \<open>status\<close>, which is
  not among the sources: the object's status is Unknown with the error attached as its
  cause (the spec does not give the human-readable text; it is left empty).
\<close>

definition UnknownStatusWithError :: "Object \<Rightarrow> go_error \<Rightarrow> ObjectStatus" where
  "UnknownStatusWithError obj err =
     ObjectStatus obj
       \<lparr>Result = Unknown, Progressing = False, StatusText = [], Err = Some err\<rparr> [] []"

section \<open>Condition analysis and aggregation (package analyze)\<close>

text \<open>The \<open>Matcher\<close> and \<open>ConditionAnalyzer\<close> interfaces have one method each.\<close>

type_synonym Matcher = "string \<Rightarrow> bool"

type_synonym ConditionAnalyzer = "Condition \<Rightarrow> ConditionStatus"

record GenericConditionAnalyzer =
  Conditions :: "Matcher list"
  ReversedPolarityConditions :: "Matcher list"
  WarningConditions :: "Matcher list"
  ProgressingConditions :: "Matcher list"
  UnknownConditions :: "Matcher list"

text \<open>
  Each of the five loops of \<open>match\<close> runs its body once, at the first matcher that
  matches, and breaks: \<open>anyMatch\<close> tells whether the body runs.
\<close>

fun anyMatch :: "Matcher list \<Rightarrow> string \<Rightarrow> bool" where
  "anyMatch [] condType = False"
| "anyMatch (t # ts) condType = (if t condType then True else anyMatch ts condType)"

definition match :: "GenericConditionAnalyzer \<Rightarrow> string \<Rightarrow> bool \<times> bool \<times> bool \<times> Result" where
  "match a condType =
     (let matched = False; reverse = False; result = Unknown; progressing = False;
          (matched, result) =
             (if anyMatch (Conditions a) condType then (True, Error) else (matched, result));
          (matched, reverse, result) =
             (if anyMatch (ReversedPolarityConditions a) condType then (True, True, Error)
              else (matched, reverse, result));
          (matched, progressing, result) =
             (if anyMatch (ProgressingConditions a) condType then (True, True, Unknown)
              else (matched, progressing, result));
          (matched, result) =
             (if anyMatch (WarningConditions a) condType then (True, Warning)
              else (matched, result));
          (matched, result) =
             (if anyMatch (UnknownConditions a) condType then (True, Unknown)
              else (matched, result))
      in (matched, reverse, progressing, result))"

definition ConditionStatusNoMatch :: ConditionStatus where
  "ConditionStatusNoMatch = \<lparr>Condition = None, CondStatus = None\<rparr>"

definition Analyze :: "GenericConditionAnalyzer \<Rightarrow> ConditionAnalyzer" where
  "Analyze a cond =
     (let res = Unknown; progressing = False;
          (matched, reverse, targetProgressing, targetRes) = match a (Type cond)
      in if \<not> matched then ConditionStatusNoMatch
         else
           let (res, progressing) =
                 (if (\<not> reverse \<and> Status cond = ConditionFalse) \<or>
                     (reverse \<and> Status cond = ConditionTrue)
                  then (targetRes, targetProgressing)
                  else if Status cond = ConditionUnknown then (Unknown, progressing)
                  else (Ok, progressing))
           in \<lparr>Condition = Some cond,
               CondStatus = Some \<lparr>Result = res, Progressing = progressing,
                                  StatusText = [], Err = None\<rparr>\<rparr>)"

definition ConditionStatusUnknown :: "Condition \<Rightarrow> ConditionStatus" where
  "ConditionStatusUnknown cond =
     \<lparr>Condition = Some cond,
      CondStatus = Some \<lparr>Result = Unknown, Progressing = False,
                         StatusText = [], Err = None\<rparr>\<rparr>"

text \<open>
  The inner loop of \<open>AnalyzeConditions\<close>: \<open>cs\<close> starts as the zero value, each
  analyzer overwrites it, and the loop breaks at the first value different from the
  sentinel.
\<close>

fun runAnalyzers :: "ConditionAnalyzer list \<Rightarrow> Condition \<Rightarrow> ConditionStatus \<Rightarrow> ConditionStatus" where
  "runAnalyzers [] cond cs = cs"
| "runAnalyzers (a # as) cond cs =
     (let cs = a cond in
      if cs \<noteq> ConditionStatusNoMatch then cs else runAnalyzers as cond cs)"

fun AnalyzeConditions :: "Condition list \<Rightarrow> ConditionAnalyzer list \<Rightarrow> ConditionStatus list" where
  "AnalyzeConditions [] analyzers = []"
| "AnalyzeConditions (cond # conditions) analyzers =
     (let cs = runAnalyzers analyzers cond \<lparr>Condition = None, CondStatus = None\<rparr>
      in (if Condition cs = None then ConditionStatusUnknown cond else cs)
           # AnalyzeConditions conditions analyzers)"

text \<open>The two loops of \<open>AggregateResult\<close>, carrying \<open>(res, progressing)\<close>.\<close>

fun aggregateConditions :: "ConditionStatus list \<Rightarrow> Result \<times> bool \<Rightarrow> panic + Result \<times> bool" where
  "aggregateConditions [] acc = Inr acc"
| "aggregateConditions (cond # conds) (res, progressing) =
     bindP (ConditionStatus_Status cond) (\<lambda>st.
       aggregateConditions conds
         (if Result st > res then Result st else res,
          if Progressing st then True else progressing))"

fun aggregateSubStatuses :: "ObjectStatus list \<Rightarrow> Result \<times> bool \<Rightarrow> Result \<times> bool" where
  "aggregateSubStatuses [] acc = acc"
| "aggregateSubStatuses (sub # subs) (res, progressing) =
     (let subst = ObjectStatus_Status sub in
      aggregateSubStatuses subs
        (if Result subst > res then Result subst else res,
         if Progressing subst then True else progressing))"

definition AggregateResult ::
  "Object \<Rightarrow> ObjectStatus list \<Rightarrow> ConditionStatus list \<Rightarrow> panic + ObjectStatus" where
  "AggregateResult obj subStatuses conditions =
     bindP (aggregateConditions conditions (Unknown, False)) (\<lambda>acc.
       let (res, progressing) = aggregateSubStatuses subStatuses acc
       in Inr (ObjectStatus obj
                 \<lparr>Result = res, Progressing = progressing,
                  StatusText = Result_String res, Err = None\<rparr>
                 subStatuses conditions))"

section \<open>Aggregation: the maximum and the disjunction\<close>

text \<open>
  The contributors of an aggregation: the statuses of the analyzed conditions, followed by
  the statuses of the sub-objects.
\<close>

definition contributors :: "ConditionStatus list \<Rightarrow> ObjectStatus list \<Rightarrow> Status list" where
  "contributors conditions subStatuses =
     List.map_filter CondStatus conditions @ map ObjectStatus_Status subStatuses"

lemma Max_insert_max:
  "finite S \<Longrightarrow> Max (insert (max r x) S) = Max (insert r (insert x S))"
  by (cases "S = {}") (simp_all add: ac_simps)

lemma greater_is_max: "(if (x::Result) > r then x else r) = max r x"
  by (auto simp add: max_def)

lemma aggregateConditions_Max:
  "\<forall>c\<in>set conds. CondStatus c \<noteq> None \<Longrightarrow>
   aggregateConditions conds (r, p) =
     Inr (Max (insert r (Result ` set (List.map_filter CondStatus conds))),
          p \<or> (\<exists>st\<in>set (List.map_filter CondStatus conds). Progressing st))"
proof (induction conds arbitrary: r p)
  case Nil
  then show ?case by (simp add: List.map_filter_simps)
next
  case (Cons c conds)
  then obtain st where st: "CondStatus c = Some st" by auto
  have fin: "finite (Result ` set (List.map_filter CondStatus conds))" by simp
  show ?case
    using Cons st
    by (auto simp add: List.map_filter_simps bindP_def ConditionStatus_Status_def
          greater_is_max Max_insert_max [OF fin] insert_commute)
qed

lemma aggregateSubStatuses_Max:
  "aggregateSubStatuses subs (r, p) =
     (Max (insert r (Result ` set (map ObjectStatus_Status subs))),
      p \<or> (\<exists>st\<in>set (map ObjectStatus_Status subs). Progressing st))"
proof (induction subs arbitrary: r p)
  case Nil
  then show ?case by simp
next
  case (Cons s subs)
  have fin: "finite (Result ` set (map ObjectStatus_Status subs))" by simp
  show ?case
    using Cons
    by (auto simp add: Let_def greater_is_max Max_insert_max [OF fin] insert_commute
        simp del: set_map)
qed

text \<open>
  C1.  For every object, every list of sub-statuses and every list of analyzed conditions
  (each carries a status), \<open>AggregateResult\<close> returns an \<open>ObjectStatus\<close> for that
  object whose result is the maximum \<open>Result\<close> over all contributors, starting from
  \<open>Unknown\<close>, whose progressing flag is the disjunction of the contributors' flags,
  whose message is \<open>result.String()\<close>, and which carries the sub-statuses and
  conditions it was given.  With no conditions and no sub-statuses the result is
  \<open>Unknown\<close> and progressing is false.
\<close>

theorem AggregateResult_max_or:
  assumes "\<forall>c\<in>set conditions. CondStatus c \<noteq> None"
  shows "AggregateResult obj subStatuses conditions =
           Inr (ObjectStatus obj
                  \<lparr>Result = Max (insert Unknown (Result ` set (contributors conditions subStatuses))),
                   Progressing = (\<exists>st\<in>set (contributors conditions subStatuses). Progressing st),
                   StatusText =
                     Result_String (Max (insert Unknown (Result ` set (contributors conditions subStatuses)))),
                   Err = None\<rparr>
                  subStatuses conditions)
         \<and> AggregateResult obj [] [] =
           Inr (ObjectStatus obj
                  \<lparr>Result = Unknown, Progressing = False, StatusText = Result_String Unknown,
                   Err = None\<rparr> [] [])"
proof -
  let ?cs = "Result ` set (List.map_filter CondStatus conditions)"
  let ?ss = "Result ` set (map ObjectStatus_Status subStatuses)"
  have fin: "finite ?cs" by simp
  have "Max (insert (Max (insert Unknown ?cs)) ?ss) = Max (insert Unknown (?cs \<union> ?ss))"
  proof (cases "?ss = {}")
    case True
    then show ?thesis by simp
  next
    case False
    have "Max (insert Unknown (?cs \<union> ?ss)) = Max (insert Unknown ?cs \<union> ?ss)" by simp
    also have "\<dots> = max (Max (insert Unknown ?cs)) (Max ?ss)"
      using False by (intro Max_Un) simp_all
    also have "\<dots> = Max (insert (Max (insert Unknown ?cs)) ?ss)"
      using False by simp
    finally show ?thesis by simp
  qed
  then have general: "AggregateResult obj subStatuses conditions =
           Inr (ObjectStatus obj
                  \<lparr>Result = Max (insert Unknown (Result ` set (contributors conditions subStatuses))),
                   Progressing = (\<exists>st\<in>set (contributors conditions subStatuses). Progressing st),
                   StatusText =
                     Result_String (Max (insert Unknown (Result ` set (contributors conditions subStatuses)))),
                   Err = None\<rparr>
                  subStatuses conditions)"
    using assms
    by (auto simp add: AggregateResult_def aggregateConditions_Max aggregateSubStatuses_Max
          bindP_def contributors_def image_Un simp del: set_map)
  have "AggregateResult obj [] [] =
           Inr (ObjectStatus obj
                  \<lparr>Result = Unknown, Progressing = False, StatusText = Result_String Unknown,
                   Err = None\<rparr> [] [])"
    by (simp add: AggregateResult_def bindP_def)
  with general show ?thesis by simp
qed

text \<open>A pod and a condition used as concrete inputs below.\<close>

definition obj0 :: Object where
  "obj0 = \<lparr>TypeMeta_Kind = ''Pod'', TypeMeta_APIVersion = ''v1'', Name = ''web'',
           Namespace = ''default'', UID = ''u1'', Generation = 1, OwnerReferences = [],
           Unstructured = Map.empty\<rparr>"

definition cond0 :: Condition where
  "cond0 = \<lparr>Type = ''Ready'', Status = ''False'', ObservedGeneration = 0,
            LastTransitionTime = 0, Reason = [], Message = []\<rparr>"

text \<open>
  The aggregation at a concrete input: conditions \<open>Error\<close> and \<open>Ok\<close>, one
  sub-status \<open>Warning\<close> that is progressing.
\<close>

theorem AggregateResult_max_or_witness:
  "AggregateResult obj0
     [ObjectStatus obj0 \<lparr>Result = Warning, Progressing = True, StatusText = ''Warning'',
                         Err = None\<rparr> [] []]
     [\<lparr>Condition = Some cond0,
       CondStatus = Some \<lparr>Result = Error, Progressing = False, StatusText = [], Err = None\<rparr>\<rparr>,
      \<lparr>Condition = Some cond0,
       CondStatus = Some \<lparr>Result = Ok, Progressing = False, StatusText = [], Err = None\<rparr>\<rparr>]
   = Inr (ObjectStatus obj0
            \<lparr>Result = Error, Progressing = True, StatusText = ''Error'', Err = None\<rparr>
     [ObjectStatus obj0 \<lparr>Result = Warning, Progressing = True, StatusText = ''Warning'',
                         Err = None\<rparr> [] []]
     [\<lparr>Condition = Some cond0,
       CondStatus = Some \<lparr>Result = Error, Progressing = False, StatusText = [], Err = None\<rparr>\<rparr>,
      \<lparr>Condition = Some cond0,
       CondStatus = Some \<lparr>Result = Ok, Progressing = False, StatusText = [], Err = None\<rparr>\<rparr>])"
  using AggregateResult_max_or [of
     "[\<lparr>Condition = Some cond0,
       CondStatus = Some \<lparr>Result = Error, Progressing = False, StatusText = [], Err = None\<rparr>\<rparr>,
      \<lparr>Condition = Some cond0,
       CondStatus = Some \<lparr>Result = Ok, Progressing = False, StatusText = [], Err = None\<rparr>\<rparr>]"
     obj0
     "[ObjectStatus obj0 \<lparr>Result = Warning, Progressing = True, StatusText = ''Warning'',
                         Err = None\<rparr> [] []]"]
  by (simp add: contributors_def List.map_filter_simps ObjectStatus_Status_def
        less_eq_Result_def max_def)

section \<open>The generic condition analyzer against its decision table\<close>

text \<open>
  The decision in the spec's words.  A set of matchers matches a condition type when one
  of its matchers does.  The five sets are checked in the fixed order Conditions,
  ReversedPolarityConditions, ProgressingConditions, WarningConditions,
  UnknownConditions; each set that matches overrides the target of the earlier ones
  (Error, Error, Unknown and progressing, Warning, Unknown).
\<close>

definition spec_set_matches :: "Matcher list \<Rightarrow> string \<Rightarrow> bool" where
  "spec_set_matches ms condType = (\<exists>m\<in>set ms. m condType)"

definition spec_matched :: "GenericConditionAnalyzer \<Rightarrow> string \<Rightarrow> bool" where
  "spec_matched a condType =
     (spec_set_matches (Conditions a) condType \<or>
      spec_set_matches (ReversedPolarityConditions a) condType \<or>
      spec_set_matches (ProgressingConditions a) condType \<or>
      spec_set_matches (WarningConditions a) condType \<or>
      spec_set_matches (UnknownConditions a) condType)"

definition spec_reverse :: "GenericConditionAnalyzer \<Rightarrow> string \<Rightarrow> bool" where
  "spec_reverse a condType = spec_set_matches (ReversedPolarityConditions a) condType"

definition spec_steps ::
  "GenericConditionAnalyzer \<Rightarrow> (Matcher list \<times> (Result \<times> bool \<Rightarrow> Result \<times> bool)) list" where
  "spec_steps a =
     [(Conditions a, \<lambda>(r, p). (Error, p)),
      (ReversedPolarityConditions a, \<lambda>(r, p). (Error, p)),
      (ProgressingConditions a, \<lambda>(r, p). (Unknown, True)),
      (WarningConditions a, \<lambda>(r, p). (Warning, p)),
      (UnknownConditions a, \<lambda>(r, p). (Unknown, p))]"

definition spec_target :: "GenericConditionAnalyzer \<Rightarrow> string \<Rightarrow> Result \<times> bool" where
  "spec_target a condType =
     fold (\<lambda>(ms, override) target. if spec_set_matches ms condType then override target else target)
       (spec_steps a) (Unknown, False)"

definition spec_bad_state :: "GenericConditionAnalyzer \<Rightarrow> Condition \<Rightarrow> bool" where
  "spec_bad_state a cond =
     (if spec_reverse a (Type cond) then Status cond = ConditionTrue
      else Status cond = ConditionFalse)"

definition verdict :: "Condition \<Rightarrow> Result \<Rightarrow> bool \<Rightarrow> ConditionStatus" where
  "verdict cond res progressing =
     \<lparr>Condition = Some cond,
      CondStatus = Some \<lparr>Result = res, Progressing = progressing, StatusText = [], Err = None\<rparr>\<rparr>"

lemma anyMatch_iff: "anyMatch ms condType = spec_set_matches ms condType"
  by (induction ms) (auto simp: spec_set_matches_def)

lemma match_spec:
  "match a condType =
     (spec_matched a condType, spec_reverse a condType,
      snd (spec_target a condType), fst (spec_target a condType))"
  by (simp add: match_def anyMatch_iff spec_matched_def spec_reverse_def spec_target_def
        spec_steps_def Let_def)

text \<open>The target in closed form: the last set that matches decides.\<close>

lemma spec_target_closed_form:
  "spec_target a t =
     (if spec_set_matches (UnknownConditions a) t then Unknown
      else if spec_set_matches (WarningConditions a) t then Warning
      else if spec_set_matches (ProgressingConditions a) t then Unknown
      else if spec_set_matches (ReversedPolarityConditions a) t \<or>
              spec_set_matches (Conditions a) t then Error
      else Unknown,
      spec_set_matches (ProgressingConditions a) t)"
  by (simp add: spec_target_def spec_steps_def)

text \<open>
  C2.  For every \<open>GenericConditionAnalyzer\<close> and every condition: if no matcher set
  matches the condition type, \<open>Analyze\<close> returns the \<open>NoMatch\<close> sentinel; otherwise,
  if the condition status is True under reversed polarity (or False under normal
  polarity), it returns the target result and target progressing flag computed by
  checking the five matcher sets in their fixed order; otherwise, if the condition status
  is Unknown, the result is Unknown; otherwise the result is Ok (in both of these cases
  progressing is false).
\<close>

theorem Analyze_decision:
  "(\<not> spec_matched a (Type cond) \<longrightarrow> Analyze a cond = ConditionStatusNoMatch) \<and>
   (spec_matched a (Type cond) \<and> spec_bad_state a cond \<longrightarrow>
      Analyze a cond = verdict cond (fst (spec_target a (Type cond)))
                                    (snd (spec_target a (Type cond)))) \<and>
   (spec_matched a (Type cond) \<and> \<not> spec_bad_state a cond \<and> Status cond = ConditionUnknown \<longrightarrow>
      Analyze a cond = verdict cond Unknown False) \<and>
   (spec_matched a (Type cond) \<and> \<not> spec_bad_state a cond \<and> Status cond \<noteq> ConditionUnknown \<longrightarrow>
      Analyze a cond = verdict cond Ok False)"
  by (auto simp add: Analyze_def match_spec spec_bad_state_def verdict_def Let_def
        case_prod_beta ConditionTrue_def ConditionFalse_def ConditionUnknown_def)

text \<open>
  An analyzer shaped like the default one, with exact-match matchers, and the decision at
  six conditions: no match, Ready=False, MemoryPressure=True, Progressing=True,
  Ready=Unknown, Ready=True.
\<close>

definition analyzer0 :: GenericConditionAnalyzer where
  "analyzer0 =
     \<lparr>Conditions = [\<lambda>s. s = ''Ready''],
      ReversedPolarityConditions =
        [\<lambda>s. s = ''Degraded'', \<lambda>s. s = ''MemoryPressure'', \<lambda>s. s = ''Progressing''],
      WarningConditions = [\<lambda>s. s = ''MemoryPressure''],
      ProgressingConditions = [\<lambda>s. s = ''Progressing''],
      UnknownConditions = [\<lambda>s. s = ''Disabled'']\<rparr>"

theorem Analyze_decision_witness:
  "Analyze analyzer0 (cond0\<lparr>Type := ''Other''\<rparr>) = ConditionStatusNoMatch \<and>
   Analyze analyzer0 cond0 = verdict cond0 Error False \<and>
   Analyze analyzer0 (cond0\<lparr>Type := ''MemoryPressure'', Status := ''True''\<rparr>)
     = verdict (cond0\<lparr>Type := ''MemoryPressure'', Status := ''True''\<rparr>) Warning False \<and>
   Analyze analyzer0 (cond0\<lparr>Type := ''Progressing'', Status := ''True''\<rparr>)
     = verdict (cond0\<lparr>Type := ''Progressing'', Status := ''True''\<rparr>) Unknown True \<and>
   Analyze analyzer0 (cond0\<lparr>Status := ''Unknown''\<rparr>)
     = verdict (cond0\<lparr>Status := ''Unknown''\<rparr>) Unknown False \<and>
   Analyze analyzer0 (cond0\<lparr>Status := ''True''\<rparr>)
     = verdict (cond0\<lparr>Status := ''True''\<rparr>) Ok False"
  using Analyze_decision [of analyzer0 "cond0\<lparr>Type := ''Other''\<rparr>"]
    Analyze_decision [of analyzer0 cond0]
    Analyze_decision [of analyzer0 "cond0\<lparr>Type := ''MemoryPressure'', Status := ''True''\<rparr>"]
    Analyze_decision [of analyzer0 "cond0\<lparr>Type := ''Progressing'', Status := ''True''\<rparr>"]
    Analyze_decision [of analyzer0 "cond0\<lparr>Status := ''Unknown''\<rparr>"]
    Analyze_decision [of analyzer0 "cond0\<lparr>Status := ''True''\<rparr>"]
  by (simp add: analyzer0_def cond0_def spec_matched_def spec_set_matches_def
        spec_bad_state_def spec_reverse_def spec_target_def spec_steps_def
        ConditionTrue_def ConditionFalse_def ConditionUnknown_def)

section \<open>Analysis of a list of conditions\<close>

text \<open>
  The claim in the spec's words: one status per condition, in input order; each condition
  gets the verdict of the first analyzer that does not return the sentinel, and a condition
  matched by no analyzer is Unknown and not progressing.
\<close>

definition spec_AnalyzeConditions ::
  "Condition list \<Rightarrow> ConditionAnalyzer list \<Rightarrow> ConditionStatus list" where
  "spec_AnalyzeConditions conditions analyzers =
     map (\<lambda>cond. case find (\<lambda>a. a cond \<noteq> ConditionStatusNoMatch) analyzers of
                    Some a \<Rightarrow> a cond
                  | None \<Rightarrow> verdict cond Unknown False)
         conditions"

text \<open>An analyzer whose verdict carries a status but no condition.\<close>

definition statusOnlyAnalyzer :: ConditionAnalyzer where
  "statusOnlyAnalyzer cond =
     \<lparr>Condition = None,
      CondStatus = Some \<lparr>Result = Error, Progressing = False, StatusText = [], Err = None\<rparr>\<rparr>"

lemma runAnalyzers_find:
  "runAnalyzers analyzers cond ConditionStatusNoMatch =
     (case find (\<lambda>a. a cond \<noteq> ConditionStatusNoMatch) analyzers of
        Some a \<Rightarrow> a cond
      | None \<Rightarrow> ConditionStatusNoMatch)"
  by (induction analyzers) (simp_all add: Let_def)

lemma ConditionStatusUnknown_verdict: "ConditionStatusUnknown cond = verdict cond Unknown False"
  by (simp add: ConditionStatusUnknown_def verdict_def)

text \<open>
  C6, as stated, fails: the loop stops at the first verdict that differs from the
  sentinel, but the result is kept only if that verdict's \<open>Condition\<close> pointer is set.
\<close>

theorem AnalyzeConditions_first_verdict_counterexample:
  "\<not> (\<forall>conditions analyzers.
        AnalyzeConditions conditions analyzers = spec_AnalyzeConditions conditions analyzers)"
proof
  assume "\<forall>conditions analyzers.
        AnalyzeConditions conditions analyzers = spec_AnalyzeConditions conditions analyzers"
  then have "AnalyzeConditions [cond0] [statusOnlyAnalyzer]
               = spec_AnalyzeConditions [cond0] [statusOnlyAnalyzer]"
    by blast
  then show False
    by (simp add: spec_AnalyzeConditions_def statusOnlyAnalyzer_def ConditionStatusNoMatch_def
          ConditionStatusUnknown_def)
qed

text \<open>What the two loops compute, condition by condition.\<close>

lemma AnalyzeConditions_map:
  "AnalyzeConditions conditions analyzers =
     map (\<lambda>cond. case find (\<lambda>a. a cond \<noteq> ConditionStatusNoMatch) analyzers of
                    Some a \<Rightarrow> if Condition (a cond) = None then verdict cond Unknown False
                              else a cond
                  | None \<Rightarrow> verdict cond Unknown False)
         conditions"
proof (induction conditions)
  case Nil
  show ?case by simp
next
  case (Cons cond conditions)
  have zero: "\<lparr>Condition = None, CondStatus = None\<rparr> = ConditionStatusNoMatch"
    by (simp add: ConditionStatusNoMatch_def)
  have "runAnalyzers analyzers cond \<lparr>Condition = None, CondStatus = None\<rparr> =
          (case find (\<lambda>a. a cond \<noteq> ConditionStatusNoMatch) analyzers of
             Some a \<Rightarrow> a cond | None \<Rightarrow> ConditionStatusNoMatch)"
    using runAnalyzers_find [of analyzers cond] by (simp add: zero)
  then show ?case
    by (cases "find (\<lambda>a. a cond \<noteq> ConditionStatusNoMatch) analyzers")
       (simp_all add: Cons Let_def ConditionStatusUnknown_verdict ConditionStatusNoMatch_def)
qed

text \<open>
  For analyzers that answer with the sentinel or with a verdict that carries a condition
  (as every constructor of verdicts in package \<open>analyze\<close> does), the analysis is the one
  the spec's words describe.
\<close>

lemma AnalyzeConditions_conditions_set:
  assumes "\<forall>a\<in>set analyzers. \<forall>cond. a cond = ConditionStatusNoMatch \<or> Condition (a cond) \<noteq> None"
  shows "AnalyzeConditions conditions analyzers = spec_AnalyzeConditions conditions analyzers"
proof -
  have "(case find (\<lambda>a. a cond \<noteq> ConditionStatusNoMatch) analyzers of
           Some a \<Rightarrow> if Condition (a cond) = None then verdict cond Unknown False else a cond
         | None \<Rightarrow> verdict cond Unknown False)
        = (case find (\<lambda>a. a cond \<noteq> ConditionStatusNoMatch) analyzers of
             Some a \<Rightarrow> a cond
           | None \<Rightarrow> verdict cond Unknown False)" for cond
  proof (cases "find (\<lambda>a. a cond \<noteq> ConditionStatusNoMatch) analyzers")
    case None
    then show ?thesis by simp
  next
    case (Some a)
    then have "a \<in> set analyzers" "a cond \<noteq> ConditionStatusNoMatch"
      by (auto simp: find_Some_iff)
    with assms have "Condition (a cond) \<noteq> None" by blast
    with Some show ?thesis by auto
  qed
  then show ?thesis
    by (simp add: AnalyzeConditions_map spec_AnalyzeConditions_def)
qed

text \<open>
  C6, amended.  \<open>AnalyzeConditions\<close> returns exactly one \<open>ConditionStatus\<close> per input
  condition, in input order; each condition gets the verdict of the first analyzer that
  does not return the sentinel, provided that verdict carries a condition; a condition
  matched by no analyzer, or whose first verdict other than the sentinel carries no
  condition, gets result Unknown with progressing false.
\<close>

theorem AnalyzeConditions_first_verdict:
  "AnalyzeConditions conditions analyzers =
     map (\<lambda>cond. case find (\<lambda>a. a cond \<noteq> ConditionStatusNoMatch) analyzers of
                    Some a \<Rightarrow> if Condition (a cond) = None then verdict cond Unknown False
                              else a cond
                  | None \<Rightarrow> verdict cond Unknown False)
         conditions
   \<and> length (AnalyzeConditions conditions analyzers) = length conditions"
  by (simp add: AnalyzeConditions_map)

text \<open>The generic analyzer run directly at three conditions.\<close>

lemma Analyze_analyzer0_values:
  "Analyze analyzer0 (cond0\<lparr>Type := ''Other''\<rparr>) = ConditionStatusNoMatch"
  "Analyze analyzer0 cond0 = verdict cond0 Error False"
  "Analyze analyzer0 (cond0\<lparr>Status := ''True''\<rparr>)
     = verdict (cond0\<lparr>Status := ''True''\<rparr>) Ok False"
  by (simp_all add: Analyze_def match_def analyzer0_def cond0_def verdict_def
        ConditionTrue_def ConditionFalse_def ConditionUnknown_def)

text \<open>
  Three conditions under two analyzer lists: behind an analyzer whose verdicts carry no
  condition every condition is Unknown; with the generic analyzer alone the unmatched
  condition is Unknown and the others get its verdicts, in input order.
\<close>

theorem AnalyzeConditions_first_verdict_witness:
  "AnalyzeConditions [cond0\<lparr>Type := ''Other''\<rparr>, cond0, cond0\<lparr>Status := ''True''\<rparr>]
     [statusOnlyAnalyzer, Analyze analyzer0]
   = [verdict (cond0\<lparr>Type := ''Other''\<rparr>) Unknown False,
      verdict cond0 Unknown False,
      verdict (cond0\<lparr>Status := ''True''\<rparr>) Unknown False]
   \<and> AnalyzeConditions [cond0\<lparr>Type := ''Other''\<rparr>, cond0, cond0\<lparr>Status := ''True''\<rparr>]
     [Analyze analyzer0]
   = [verdict (cond0\<lparr>Type := ''Other''\<rparr>) Unknown False,
      verdict cond0 Error False,
      verdict (cond0\<lparr>Status := ''True''\<rparr>) Ok False]"
  using AnalyzeConditions_first_verdict
          [of "[cond0\<lparr>Type := ''Other''\<rparr>, cond0, cond0\<lparr>Status := ''True''\<rparr>]"
              "[statusOnlyAnalyzer, Analyze analyzer0]"]
        AnalyzeConditions_first_verdict
          [of "[cond0\<lparr>Type := ''Other''\<rparr>, cond0, cond0\<lparr>Status := ''True''\<rparr>]"
              "[Analyze analyzer0]"]
        Analyze_analyzer0_values
  by (simp add: statusOnlyAnalyzer_def ConditionStatusNoMatch_def verdict_def)

section \<open>The evaluator (package eval)\<close>

definition NamespaceAll :: string where "NamespaceAll = ''*all*''"

definition NamespaceNone :: string where "NamespaceNone = []"

text \<open>
  \<open>obj.GroupVersionKind().GroupKind()\<close>: the kind of the type metadata, and the group
  that the Kubernetes library reads off the API version (the part before the slash of
  \<open>group/version\<close>; no group for a bare version or a malformed string).
\<close>

definition Object_GroupKind :: "Object \<Rightarrow> GroupKind" where
  "Object_GroupKind obj =
     GroupKind
       (if length (filter (\<lambda>c. c = CHR ''/'') (TypeMeta_APIVersion obj)) = 1
        then takeWhile (\<lambda>c. c \<noteq> CHR ''/'') (TypeMeta_APIVersion obj) else [])
       (TypeMeta_Kind obj)"

text \<open>
  The \<open>Loader\<close> interface, without the context argument.  A Go result pair
  \<open>(value, err)\<close> is a sum: every caller modelled here drops the value when the error
  is set.
\<close>

record Loader =
  Get :: "Object \<Rightarrow> go_error + Object"
  Load :: "string \<Rightarrow> GroupKindMatcher \<Rightarrow> GroupKind list \<Rightarrow> go_error + Object list"
  LoadPodLogs :: "Object \<Rightarrow> string \<Rightarrow> int \<Rightarrow> go_error + string"

text \<open>
  \<open>nsCache\<close>.  The Go map from kinds to objects is an association list with distinct
  keys, in order of first insertion (Go iterates maps in no fixed order; the model fixes
  this one).
\<close>

record nsCache =
  objects :: "(GroupKind \<times> Object list) list"
  matcher :: GroupKindMatcher
  needsRefill :: bool

definition newNsCache :: nsCache where
  "newNsCache = \<lparr>objects = [], matcher = GroupKindMatcher_zero, needsRefill = False\<rparr>"

text \<open>Writing \<open>m[k] = v\<close> into a Go map kept as an association list.\<close>

fun map_store :: "'k \<Rightarrow> 'v \<Rightarrow> ('k \<times> 'v) list \<Rightarrow> ('k \<times> 'v) list" where
  "map_store k v [] = [(k, v)]"
| "map_store k v ((k', v') # kvs) =
     (if k' = k then (k, v) # kvs else (k', v') # map_store k v kvs)"

definition nsCache_append :: "nsCache \<Rightarrow> Object \<Rightarrow> nsCache" where
  "nsCache_append n obj =
     (let gk = Object_GroupKind obj in
      n\<lparr>objects := map_store gk
            ((case map_of (objects n) gk of None \<Rightarrow> [] | Some objs \<Rightarrow> objs) @ [obj])
            (objects n)\<rparr>)"

definition updateMatcher :: "nsCache \<Rightarrow> GroupKindMatcher \<Rightarrow> panic + bool \<times> nsCache" where
  "updateMatcher n gk =
     bindP (Merge (matcher n) gk) (\<lambda>merged.
       if \<not> Equal merged (matcher n)
       then Inr (True, n\<lparr>matcher := merged, needsRefill := True\<rparr>)
       else Inr (False, n))"

text \<open>
  The evaluator's state.  \<open>'a\<close> is the type of analyzers; UIDs and namespaces are strings.
  The map from namespaces to caches is iterated by \<open>Filter\<close>, so it is an association
  list as well; each \<open>*nsCache\<close> pointer is the entry under its namespace.
\<close>

record 'a Evaluator =
  analyzers :: "'a list"
  loader :: Loader
  analyzersCache :: "string \<rightharpoonup> 'a"
  cache :: "string \<rightharpoonup> Object"
  nsCache :: "(string \<times> nsCache) list"
  ownership :: "string \<rightharpoonup> string set"
  ownershipRefreshNs :: "string list"

text \<open>
  The \<open>Analyzer\<close> interface: its two methods, for analyzers of type \<open>'a\<close>.  An analyzer
  may hold a reference to the evaluator and query it, so \<open>Analyze\<close> takes and returns
  the evaluator's state.
\<close>

record 'a Analyzer =
  Supports :: "'a \<Rightarrow> Object \<Rightarrow> bool"
  Analyze_Object :: "'a \<Rightarrow> Object \<Rightarrow> 'a Evaluator \<Rightarrow> ObjectStatus \<times> 'a Evaluator"

text \<open>The \<open>QuerySpec\<close> interface.\<close>

record 'a QuerySpec =
  qs_GroupKindMatcher :: GroupKindMatcher
  qs_Namespace :: string
  qs_Eval :: "'a Evaluator \<Rightarrow> Object list \<times> 'a Evaluator"

definition NewEvaluator :: "'a list \<Rightarrow> Loader \<Rightarrow> 'a Evaluator" where
  "NewEvaluator as l =
     \<lparr>analyzers = as, loader = l, analyzersCache = Map.empty, cache = Map.empty,
      nsCache = [], ownership = Map.empty, ownershipRefreshNs = []\<rparr>"

definition getNsCache :: "'a Evaluator \<Rightarrow> string \<Rightarrow> nsCache \<times> 'a Evaluator" where
  "getNsCache e ns =
     (case map_of (nsCache e) ns of
        None \<Rightarrow> (newNsCache, e\<lparr>nsCache := map_store ns newNsCache (nsCache e)\<rparr>)
      | Some n \<Rightarrow> (n, e))"

text \<open>A write through the pointer that \<open>getNsCache\<close> returned for \<open>ns\<close>.\<close>

definition putNsCache :: "'a Evaluator \<Rightarrow> string \<Rightarrow> nsCache \<Rightarrow> 'a Evaluator" where
  "putNsCache e ns n = e\<lparr>nsCache := map_store ns n (nsCache e)\<rparr>"

definition Filter_namespace ::
  "'a Evaluator \<Rightarrow> string \<Rightarrow> GroupKindMatcher \<Rightarrow> Object list \<times> 'a Evaluator" where
  "Filter_namespace e ns m =
     (let (n, e) = getNsCache e ns in
      (concat (map snd (filter (\<lambda>(gk, objs). Match m gk) (objects n))), e))"

fun Filter_each ::
  "string list \<Rightarrow> GroupKindMatcher \<Rightarrow> 'a Evaluator \<Rightarrow> Object list \<times> 'a Evaluator" where
  "Filter_each [] m e = ([], e)"
| "Filter_each (ns # nss) m e =
     (if ns \<noteq> NamespaceAll
      then (let (objs, e) = Filter_namespace e ns m;
                (rest, e) = Filter_each nss m e
            in (objs @ rest, e))
      else Filter_each nss m e)"

definition Filter ::
  "'a Evaluator \<Rightarrow> string \<Rightarrow> GroupKindMatcher \<Rightarrow> Object list \<times> 'a Evaluator" where
  "Filter e ns m =
     (if ns = NamespaceAll then Filter_each (map fst (nsCache e)) m e
      else Filter_namespace e ns m)"

text \<open>
  \<open>Reset\<close>.  The builtin \<open>clear\<close> deletes all entries of a map; on a slice it sets the
  elements to the zero value and leaves the length as it is.
\<close>

definition Reset :: "'a Evaluator \<Rightarrow> 'a Evaluator" where
  "Reset e =
     e\<lparr>cache := Map.empty, ownership := Map.empty, nsCache := [],
       ownershipRefreshNs := map (\<lambda>_. []) (ownershipRefreshNs e)\<rparr>"

fun firstSupporting :: "'a Analyzer \<Rightarrow> 'a list \<Rightarrow> Object \<Rightarrow> 'a option" where
  "firstSupporting A [] obj = None"
| "firstSupporting A (analyzer # rest) obj =
     (if Supports A analyzer obj then Some analyzer else firstSupporting A rest obj)"

text \<open>\<open>findAnalyzer\<close> returns nil (\<open>None\<close>) when no analyzer supports the object.\<close>

definition findAnalyzer ::
  "'a Analyzer \<Rightarrow> 'a Evaluator \<Rightarrow> Object \<Rightarrow> 'a option \<times> 'a Evaluator" where
  "findAnalyzer A e obj =
     (case firstSupporting A (analyzers e) obj of
        Some analyzer \<Rightarrow>
          (Some analyzer, e\<lparr>analyzersCache := (analyzersCache e)(UID obj \<mapsto> analyzer)\<rparr>)
      | None \<Rightarrow> (None, e))"

definition updateCache :: "'a Evaluator \<Rightarrow> Object \<Rightarrow> bool \<times> 'a Evaluator" where
  "updateCache e obj =
     (if cache e (UID obj) \<noteq> None then (False, e)
      else
        let e = e\<lparr>cache := (cache e)(UID obj \<mapsto> obj)\<rparr>;
            (n, e) = getNsCache e (Namespace obj)
        in (True, putNsCache e (Namespace obj) (nsCache_append n obj)))"

text \<open>Calling \<open>Analyze\<close> on an analyzer; on the nil interface value the call panics.\<close>

definition callAnalyze ::
  "'a Analyzer \<Rightarrow> 'a option \<Rightarrow> Object \<Rightarrow> 'a Evaluator \<Rightarrow> panic + ObjectStatus \<times> 'a Evaluator" where
  "callAnalyze A analyzer obj e =
     (case analyzer of
        None \<Rightarrow> Inl NilPointerDereference
      | Some a \<Rightarrow> Inr (Analyze_Object A a obj e))"

definition Eval ::
  "'a Analyzer \<Rightarrow> 'a Evaluator \<Rightarrow> Object \<Rightarrow> panic + ObjectStatus \<times> 'a Evaluator" where
  "Eval A e obj =
     (let (analyzer, e) = findAnalyzer A e obj in
      case cache e (UID obj) of
        Some updatedObj \<Rightarrow> callAnalyze A analyzer updatedObj e
      | None \<Rightarrow>
          (case Get (loader e) obj of
             Inl err \<Rightarrow> Inr (UnknownStatusWithError obj err, e)
           | Inr updatedObj \<Rightarrow>
               (let (_, e) = updateCache e obj in
                callAnalyze A analyzer updatedObj e)))"

text \<open>
  The loop of \<open>loadNamespace\<close> over the loaded objects.  It carries the set of touched
  namespaces (a Go map used as a set, kept in order of first insertion).
\<close>

fun loadNamespace_objects ::
  "string \<Rightarrow> Object list \<Rightarrow> string list \<times> 'a Evaluator \<Rightarrow> string list \<times> 'a Evaluator" where
  "loadNamespace_objects ns [] acc = acc"
| "loadNamespace_objects ns (obj # objs) (touchedNs, e) =
     (let (added, e) = updateCache e obj in
      if \<not> added then loadNamespace_objects ns objs (touchedNs, e)
      else
        let touchedNs = (if Namespace obj \<in> set touchedNs then touchedNs
                         else touchedNs @ [Namespace obj]);
            e = (if ns = NamespaceAll
                 then (let (n, e) = getNsCache e ns in putNsCache e ns (nsCache_append n obj))
                 else e)
        in loadNamespace_objects ns objs (touchedNs, e))"

fun markTouched :: "string list \<Rightarrow> string list \<Rightarrow> string list" where
  "markTouched [] refreshNs = refreshNs"
| "markTouched (ns # nss) refreshNs =
     markTouched nss (if ns \<in> set refreshNs then refreshNs else refreshNs @ [ns])"

text \<open>\<open>loadNamespace\<close> returns the error of the loader's bulk list, or nil.\<close>

definition loadNamespace :: "'a Evaluator \<Rightarrow> string \<Rightarrow> go_error option \<times> 'a Evaluator" where
  "loadNamespace e ns =
     (let (n, e) = getNsCache e ns;
          gksLoaded = map fst (objects n)
      in case Load (loader e) ns (matcher n) gksLoaded of
           Inl err \<Rightarrow> (Some err, e)
         | Inr objs \<Rightarrow>
             (let e = putNsCache e ns (n\<lparr>needsRefill := False\<rparr>);
                  (touchedNs, e) = loadNamespace_objects ns objs ([], e)
              in (None, e\<lparr>ownershipRefreshNs := markTouched touchedNs (ownershipRefreshNs e)\<rparr>)))"

text \<open>
  \<open>Load\<close> of the evaluator (here \<open>Evaluator_Load\<close>).  The value returned by
  \<open>loadNamespace\<close> is not used; the error returned with the objects is always nil.
\<close>

definition Evaluator_Load ::
  "'a Evaluator \<Rightarrow> 'a QuerySpec \<Rightarrow> panic + (go_error + Object list) \<times> 'a Evaluator" where
  "Evaluator_Load e q =
     (let (n, e) = getNsCache e (qs_Namespace q) in
      bindP (updateMatcher n (qs_GroupKindMatcher q)) (\<lambda>(changed, n).
        let e = putNsCache e (qs_Namespace q) n;
            e = (if changed then snd (loadNamespace e (qs_Namespace q)) else e);
            (objs, e) = qs_Eval q e
        in Inr (Inr objs, e)))"

fun analyzeObjects ::
  "'a Analyzer \<Rightarrow> Object list \<Rightarrow> 'a option \<Rightarrow> 'a Evaluator
     \<Rightarrow> panic + ObjectStatus list \<times> 'a Evaluator" where
  "analyzeObjects A [] analyzer e = Inr ([], e)"
| "analyzeObjects A (obj # objs) analyzer e =
     (let (a, e) = (if analyzer = None then findAnalyzer A e obj else (analyzer, e)) in
      bindP (callAnalyze A a obj e) (\<lambda>(st, e).
        bindP (analyzeObjects A objs analyzer e) (\<lambda>(sts, e). Inr (st # sts, e))))"

definition EvalQuery ::
  "'a Analyzer \<Rightarrow> 'a Evaluator \<Rightarrow> 'a QuerySpec \<Rightarrow> 'a option
     \<Rightarrow> panic + (go_error + ObjectStatus list) \<times> 'a Evaluator" where
  "EvalQuery A e q analyzer =
     bindP (Evaluator_Load e q) (\<lambda>(loaded, e).
       case loaded of
         Inl err \<Rightarrow> Inr (Inl err, e)
       | Inr objs \<Rightarrow>
           bindP (analyzeObjects A objs analyzer e) (\<lambda>(sts, e). Inr (Inr sts, e)))"

text \<open>The query specifications used below: by kind, and the logs of a pod's container.\<close>

definition KindQuerySpec :: "GroupKindMatcher \<Rightarrow> string \<Rightarrow> 'a QuerySpec" where
  "KindQuerySpec gk ns =
     \<lparr>qs_GroupKindMatcher = gk, qs_Namespace = ns, qs_Eval = (\<lambda>e. Filter e ns gk)\<rparr>"

record PodLogQuerySpec =
  pl_Object :: Object
  pl_Container :: string

definition PodLogQuerySpec_Eval :: "PodLogQuerySpec \<Rightarrow> 'a Evaluator \<Rightarrow> Object list" where
  "PodLogQuerySpec_Eval qs e =
     (let data = Map.empty;
          data = (case LoadPodLogs (loader e) (pl_Object qs) (pl_Container qs) 5 of
                    Inl err \<Rightarrow> data
                  | Inr logs \<Rightarrow> data(''log'' \<mapsto> logs));
          logobj = \<lparr>TypeMeta_Kind = ''Log'', TypeMeta_APIVersion = ''kube-health.io/v1'',
                    Name = pl_Container qs, Namespace = [], UID = [], Generation = 0,
                    OwnerReferences = [], Unstructured = data\<rparr>
      in [logobj])"

definition PodLogQuerySpec_query :: "PodLogQuerySpec \<Rightarrow> 'a QuerySpec" where
  "PodLogQuerySpec_query qs =
     \<lparr>qs_GroupKindMatcher = GroupKindMatcher_zero,
      qs_Namespace = Namespace (pl_Object qs),
      qs_Eval = (\<lambda>e. (PodLogQuerySpec_Eval qs e, e))\<rparr>"

section \<open>Concrete loaders, analyzers and states\<close>

text \<open>
  A loader over a cluster in which the pod \<open>obj0\<close> has moved on to generation 2: \<open>Get\<close>
  answers with the fresh version; bulk lists are empty; the log of every container is
  one line.
\<close>

definition freshLoader :: Loader where
  "freshLoader =
     \<lparr>Get = (\<lambda>obj. Inr (obj\<lparr>Generation := 2\<rparr>)),
      Load = (\<lambda>ns m exclude. Inr []),
      LoadPodLogs = (\<lambda>obj container tailLines. Inr ''started'')\<rparr>"

text \<open>A loader whose every request fails.\<close>

definition failingLoader :: Loader where
  "failingLoader =
     \<lparr>Get = (\<lambda>obj. Inl (GoError ''get failed'')),
      Load = (\<lambda>ns m exclude. Inl (GoError ''list failed'')),
      LoadPodLogs = (\<lambda>obj container tailLines. Inl (GoError ''logs failed''))\<rparr>"

text \<open>One analyzer that supports every object, reports Ok and leaves the evaluator alone.\<close>

definition okAnalyzer :: "unit Analyzer" where
  "okAnalyzer =
     \<lparr>Supports = (\<lambda>a obj. True),
      Analyze_Object = (\<lambda>a obj e.
        (ObjectStatus obj \<lparr>Result = Ok, Progressing = False, StatusText = ''Ok'', Err = None\<rparr>
           [] [], e))\<rparr>"

section \<open>Reset\<close>

text \<open>The claim in the spec's words: all five pieces of state hold no entries.\<close>

definition spec_all_cleared :: "'a Evaluator \<Rightarrow> bool" where
  "spec_all_cleared e =
     (cache e = Map.empty \<and> nsCache e = [] \<and> ownership e = Map.empty \<and>
      ownershipRefreshNs e = [] \<and> analyzersCache e = Map.empty)"

text \<open>
  C9, as stated, fails: \<open>Reset\<close> does not touch the per-UID analyzer cache.  An evaluator
  that has one analyzer cached (and nothing else) still has it after \<open>Reset\<close>.
\<close>

theorem Reset_clears_everything_counterexample:
  "\<not> (\<forall>e :: unit Evaluator. spec_all_cleared (Reset e))"
proof
  assume "\<forall>e :: unit Evaluator. spec_all_cleared (Reset e)"
  then have "spec_all_cleared
               (Reset ((NewEvaluator [()] freshLoader)\<lparr>analyzersCache := [''u1'' \<mapsto> ()]\<rparr>))"
    by blast
  then have "[''u1'' \<mapsto> ()] = (Map.empty :: string \<rightharpoonup> unit)"
    by (simp add: spec_all_cleared_def Reset_def NewEvaluator_def)
  then have "[''u1'' \<mapsto> ()] ''u1'' = (Map.empty :: string \<rightharpoonup> unit) ''u1''"
    by (rule arg_cong)
  then show False by simp
qed

text \<open>
  C9, amended.  After \<open>Reset\<close> the UID-to-object cache, the per-namespace cache and the
  ownership index hold no entries; the analyzers, the loader and the per-UID analyzer
  cache are as before.
\<close>

theorem Reset_clears_caches:
  "cache (Reset e) = Map.empty \<and> nsCache (Reset e) = [] \<and> ownership (Reset e) = Map.empty \<and>
   analyzersCache (Reset e) = analyzersCache e \<and> analyzers (Reset e) = analyzers e \<and>
   loader (Reset e) = loader e"
  by (simp add: Reset_def)

text \<open>
  The ownership refresh list after \<open>Reset\<close>: as long as before, every entry the empty
  string (which is \<open>NamespaceNone\<close>).
\<close>

lemma Reset_ownershipRefreshNs:
  "ownershipRefreshNs (Reset e) = replicate (length (ownershipRefreshNs e)) NamespaceNone"
  by (simp add: Reset_def NamespaceNone_def map_replicate_const)

lemma Reset_ownershipRefreshNs_example:
  "ownershipRefreshNs (Reset ((NewEvaluator [()] freshLoader)\<lparr>ownershipRefreshNs := [''default'']\<rparr>))
     = ['''']"
  by (simp add: Reset_def)

section \<open>Pod logs\<close>

text \<open>
  C10.  For every \<open>PodLogQuerySpec\<close>, \<open>Eval\<close> returns exactly one object, with kind
  \<open>Log\<close>, API version \<open>kube-health.io/v1\<close> and the container's name; what it returns
  is determined by the loader's answer to the request for the logs of that object and
  container with 5 tail lines; when that request fails the object carries no data (no
  \<open>log\<close> field), when it succeeds the only field is \<open>log\<close>, holding the logs.  \<open>Eval\<close>
  returns objects only, so no error reaches the caller.
\<close>

theorem PodLogQuerySpec_Eval_synthetic:
  "(\<exists>logobj. PodLogQuerySpec_Eval qs e = [logobj] \<and>
       TypeMeta_Kind logobj = ''Log'' \<and>
       TypeMeta_APIVersion logobj = ''kube-health.io/v1'' \<and>
       Name logobj = pl_Container qs \<and>
       (\<forall>err. LoadPodLogs (loader e) (pl_Object qs) (pl_Container qs) 5 = Inl err \<longrightarrow>
              Unstructured logobj = Map.empty) \<and>
       (\<forall>logs. LoadPodLogs (loader e) (pl_Object qs) (pl_Container qs) 5 = Inr logs \<longrightarrow>
              Unstructured logobj = [''log'' \<mapsto> logs])) \<and>
   (\<forall>e' :: 'b Evaluator.
       LoadPodLogs (loader e') (pl_Object qs) (pl_Container qs) 5
         = LoadPodLogs (loader e) (pl_Object qs) (pl_Container qs) 5 \<longrightarrow>
       PodLogQuerySpec_Eval qs e' = PodLogQuerySpec_Eval qs e)"
  by (cases "LoadPodLogs (loader e) (pl_Object qs) (pl_Container qs) 5")
     (simp_all add: PodLogQuerySpec_Eval_def)

theorem PodLogQuerySpec_Eval_synthetic_witness:
  "PodLogQuerySpec_Eval \<lparr>pl_Object = obj0, pl_Container = ''app''\<rparr>
      (NewEvaluator [()] freshLoader)
     = [\<lparr>TypeMeta_Kind = ''Log'', TypeMeta_APIVersion = ''kube-health.io/v1'',
         Name = ''app'', Namespace = [], UID = [], Generation = 0,
         OwnerReferences = [], Unstructured = [''log'' \<mapsto> ''started'']\<rparr>] \<and>
   PodLogQuerySpec_Eval \<lparr>pl_Object = obj0, pl_Container = ''app''\<rparr>
      (NewEvaluator [()] failingLoader)
     = [\<lparr>TypeMeta_Kind = ''Log'', TypeMeta_APIVersion = ''kube-health.io/v1'',
         Name = ''app'', Namespace = [], UID = [], Generation = 0,
         OwnerReferences = [], Unstructured = Map.empty\<rparr>]"
proof -
  let ?qs = "\<lparr>pl_Object = obj0, pl_Container = ''app''\<rparr>"
  have ok: "LoadPodLogs (loader (NewEvaluator [()] freshLoader)) (pl_Object ?qs) (pl_Container ?qs) 5
              = Inr ''started''"
    by (simp add: NewEvaluator_def freshLoader_def)
  have bad: "LoadPodLogs (loader (NewEvaluator [()] failingLoader)) (pl_Object ?qs) (pl_Container ?qs) 5
              = Inl (GoError ''logs failed'')"
    by (simp add: NewEvaluator_def failingLoader_def)
  from PodLogQuerySpec_Eval_synthetic [of ?qs "NewEvaluator [()] freshLoader"] ok
  obtain l1 where l1: "PodLogQuerySpec_Eval ?qs (NewEvaluator [()] freshLoader) = [l1]"
      "TypeMeta_Kind l1 = ''Log''" "TypeMeta_APIVersion l1 = ''kube-health.io/v1''"
      "Name l1 = ''app''" "Unstructured l1 = [''log'' \<mapsto> ''started'']"
    by auto
  from PodLogQuerySpec_Eval_synthetic [of ?qs "NewEvaluator [()] failingLoader"] bad
  obtain l2 where l2: "PodLogQuerySpec_Eval ?qs (NewEvaluator [()] failingLoader) = [l2]"
      "TypeMeta_Kind l2 = ''Log''" "TypeMeta_APIVersion l2 = ''kube-health.io/v1''"
      "Name l2 = ''app''" "Unstructured l2 = Map.empty"
    by auto
  have rest: "Namespace l1 = [] \<and> UID l1 = [] \<and> Generation l1 = 0 \<and> OwnerReferences l1 = []"
             "Namespace l2 = [] \<and> UID l2 = [] \<and> Generation l2 = 0 \<and> OwnerReferences l2 = []"
    using l1(1) l2(1) by (auto simp: PodLogQuerySpec_Eval_def Let_def)
  show ?thesis
    using l1 l2 rest by simp
qed

section \<open>Eval of a single object\<close>

lemma findAnalyzer_cache: "cache (snd (findAnalyzer A e obj)) = cache e"
  by (simp add: findAnalyzer_def split: option.splits)

lemma findAnalyzer_loader: "loader (snd (findAnalyzer A e obj)) = loader e"
  by (simp add: findAnalyzer_def split: option.splits)

lemma getNsCache_cache: "cache (snd (getNsCache e ns)) = cache e"
  by (simp add: getNsCache_def split: option.splits)

lemma updateCache_miss:
  "cache e (UID obj) = None \<Longrightarrow> cache (snd (updateCache e obj)) = (cache e)(UID obj \<mapsto> obj)"
  using getNsCache_cache [of "e\<lparr>cache := (cache e)(UID obj \<mapsto> obj)\<rparr>" "Namespace obj"]
  by (simp add: updateCache_def putNsCache_def Let_def case_prod_beta)

text \<open>An object whose UID is cached: the cached object is analyzed.\<close>

lemma Eval_cached:
  "cache e (UID obj) = Some cached \<Longrightarrow>
   Eval A e obj =
     callAnalyze A (fst (findAnalyzer A e obj)) cached (snd (findAnalyzer A e obj))"
  using findAnalyzer_cache [of A e obj]
  by (simp add: Eval_def case_prod_beta)

text \<open>\<open>Get\<close> fails: the Unknown status with the error; the object cache is unchanged.\<close>

lemma Eval_Get_fails:
  "cache e (UID obj) = None \<Longrightarrow> Get (loader e) obj = Inl err \<Longrightarrow>
   Eval A e obj = Inr (UnknownStatusWithError obj err, snd (findAnalyzer A e obj))
   \<and> cache (snd (findAnalyzer A e obj)) = cache e"
  using findAnalyzer_cache [of A e obj] findAnalyzer_loader [of A e obj]
  by (simp add: Eval_def case_prod_beta)

text \<open>
  \<open>Get\<close> succeeds: the fresh version is analyzed, in a state whose cache maps the UID to
  the object that was passed in.
\<close>

lemma Eval_Get_succeeds:
  "cache e (UID obj) = None \<Longrightarrow> Get (loader e) obj = Inr fresh \<Longrightarrow>
   Eval A e obj =
     callAnalyze A (fst (findAnalyzer A e obj)) fresh
       (snd (updateCache (snd (findAnalyzer A e obj)) obj))
   \<and> cache (snd (updateCache (snd (findAnalyzer A e obj)) obj)) = (cache e)(UID obj \<mapsto> obj)"
  using findAnalyzer_cache [of A e obj] findAnalyzer_loader [of A e obj]
    updateCache_miss [of "snd (findAnalyzer A e obj)" obj]
  by (simp add: Eval_def case_prod_beta)

text \<open>
  C7.  \<open>Eval\<close> is documented to get the most recent version of the object and to run the
  analyzer on it.  On a cache miss it analyzes the version fetched by \<open>Loader.Get\<close>, but
  it is the object passed in, not the fetched one, that it inserts into the cache: here
  the pod is passed in at generation 1 while the loader holds generation 2; the first
  \<open>Eval\<close> analyzes generation 2 and caches generation 1, and a second \<open>Eval\<close> then
  analyzes the cached generation 1.
\<close>

theorem Eval_caches_stale_object:
  "(case Eval okAnalyzer (NewEvaluator [()] freshLoader) obj0 of
      Inl p \<Rightarrow> False
    | Inr (st, e1) \<Rightarrow>
        Generation obj0 = 1 \<and>
        Get (loader e1) obj0 = Inr (obj0\<lparr>Generation := 2\<rparr>) \<and>
        Object st = obj0\<lparr>Generation := 2\<rparr> \<and>
        cache e1 (UID obj0) = Some obj0 \<and>
        (case Eval okAnalyzer e1 obj0 of
           Inl p \<Rightarrow> False
         | Inr (st2, e2) \<Rightarrow> Object st2 = obj0))"
  by (simp add: Eval_def findAnalyzer_def NewEvaluator_def okAnalyzer_def freshLoader_def
        updateCache_def getNsCache_def putNsCache_def callAnalyze_def obj0_def)

section \<open>EvalQuery and listing errors\<close>

text \<open>\<open>loadNamespace\<close> does report the error of a failed bulk list.\<close>

lemma loadNamespace_error:
  "Load (loader e) ns (matcher (fst (getNsCache e ns))) (map fst (objects (fst (getNsCache e ns))))
     = Inl err \<Longrightarrow>
   fst (loadNamespace e ns) = Some err"
  by (simp add: loadNamespace_def getNsCache_def split: option.splits)

text \<open>\<open>Load\<close> and \<open>EvalQuery\<close> never return an error, whatever the loader did.\<close>

lemma Evaluator_Load_no_error: "Evaluator_Load e q \<noteq> Inr (Inl err, e')"
  by (auto simp add: Evaluator_Load_def bindP_def Let_def case_prod_beta split: sum.splits)

lemma EvalQuery_no_error: "EvalQuery A e q analyzer \<noteq> Inr (Inl err, e')"
proof
  assume a: "EvalQuery A e q analyzer = Inr (Inl err, e')"
  then obtain loaded e1 where l: "Evaluator_Load e q = Inr (loaded, e1)"
    by (cases "Evaluator_Load e q") (auto simp: EvalQuery_def bindP_def)
  with Evaluator_Load_no_error [of e q] obtain objs where "loaded = Inr objs"
    by (cases loaded) auto
  with a l show False
    by (auto simp: EvalQuery_def bindP_def split: sum.splits)
qed

text \<open>
  C8.  \<open>EvalQuery\<close> checks the error returned by \<open>Load\<close>, and \<open>loadNamespace\<close>
  returns the error of a failed bulk list, but \<open>Load\<close> discards the value returned by
  \<open>loadNamespace\<close> and always returns a nil error.  With a loader whose bulk list
  fails, a query for the pods of a namespace on a new evaluator returns no objects and no
  error; the namespace is left marked as needing a refill.
\<close>

theorem EvalQuery_drops_listing_error:
  "Load failingLoader ''default'' (NewGroupKindMatcherSingle (GroupKind [] ''Pod'')) []
     = Inl (GoError ''list failed'') \<and>
   (case EvalQuery okAnalyzer (NewEvaluator [()] failingLoader)
           (KindQuerySpec (NewGroupKindMatcherSingle (GroupKind [] ''Pod'')) ''default'') None of
      Inl p \<Rightarrow> False
    | Inr (Inl err, e1) \<Rightarrow> False
    | Inr (Inr sts, e1) \<Rightarrow>
        sts = [] \<and>
        map_of (nsCache e1) ''default'' =
          Some \<lparr>objects = [],
                matcher = NewGroupKindMatcherSingle (GroupKind [] ''Pod''),
                needsRefill = True\<rparr>)"
  by (simp add: EvalQuery_def Evaluator_Load_def KindQuerySpec_def NewEvaluator_def
        failingLoader_def getNsCache_def putNsCache_def updateMatcher_def newNsCache_def
        GroupKindMatcher_zero_def Merge_def Equal_def intersect2_def bindP_def
        NewGroupKindMatcherSingle_def loadNamespace_def Filter_def Filter_namespace_def
        NamespaceAll_def Match_def)

section \<open>Pod logs through Load\<close>

lemma getNsCache_loader: "loader (snd (getNsCache e ns)) = loader e"
  by (simp add: getNsCache_def split: option.splits)

lemma putNsCache_loader: "loader (putNsCache e ns n) = loader e"
  by (simp add: putNsCache_def)

lemma updateCache_loader: "loader (snd (updateCache e obj)) = loader e"
  using getNsCache_loader [of "e\<lparr>cache := (cache e)(UID obj \<mapsto> obj)\<rparr>" "Namespace obj"]
  by (simp add: updateCache_def putNsCache_def Let_def case_prod_beta)

lemma loadNamespace_objects_loader:
  "loader (snd (loadNamespace_objects ns objs (touched, e))) = loader e"
proof (induction objs arbitrary: touched e)
  case Nil
  show ?case by simp
next
  case (Cons obj objs)
  show ?case
    using updateCache_loader [of e obj]
    by (simp add: Cons Let_def case_prod_beta putNsCache_loader getNsCache_loader)
qed

lemma loadNamespace_loader: "loader (snd (loadNamespace e ns)) = loader e"
  using loadNamespace_objects_loader
          [of ns _ "[]" "putNsCache (snd (getNsCache e ns)) ns (fst (getNsCache e ns)\<lparr>needsRefill := False\<rparr>)"]
  by (simp add: loadNamespace_def Let_def case_prod_beta getNsCache_loader putNsCache_loader
        split: sum.splits)

lemma updateMatcher_returns: "\<exists>changed n'. updateMatcher n gk = Inr (changed, n')"
  using Merge_returns [of "matcher n" gk]
  by (auto simp: updateMatcher_def bindP_def)

lemma PodLogQuerySpec_Eval_loader:
  "loader e' = loader e \<Longrightarrow> PodLogQuerySpec_Eval qs e' = PodLogQuerySpec_Eval qs e"
  by (simp add: PodLogQuerySpec_Eval_def)

text \<open>
  Loading a pod-log query through the evaluator gives the synthetic object and a nil
  error, whether or not the log fetch failed.
\<close>

lemma Evaluator_Load_PodLog:
  "\<exists>e'. Evaluator_Load e (PodLogQuerySpec_query qs) = Inr (Inr (PodLogQuerySpec_Eval qs e), e')"
proof -
  let ?ns = "Namespace (pl_Object qs)"
  obtain changed n' where
    um: "updateMatcher (fst (getNsCache e ?ns)) GroupKindMatcher_zero = Inr (changed, n')"
    using updateMatcher_returns by blast
  let ?e1 = "putNsCache (snd (getNsCache e ?ns)) ?ns n'"
  let ?e2 = "if changed then snd (loadNamespace ?e1 ?ns) else ?e1"
  have "loader ?e2 = loader e"
    by (simp add: loadNamespace_loader putNsCache_loader getNsCache_loader)
  then have "PodLogQuerySpec_Eval qs ?e2 = PodLogQuerySpec_Eval qs e"
    by (rule PodLogQuerySpec_Eval_loader)
  then show ?thesis
    using um
    by (cases changed)
       (simp_all add: Evaluator_Load_def PodLogQuerySpec_query_def case_prod_beta bindP_def Let_def)
qed

end
